theory Spec2Isabelle
  imports Main
begin

section \<open>Python floats\<close>

text \<open>
  \<^verbatim>\<open>app.py\<close> converts every GPS number with \<^verbatim>\<open>float(...)\<close>, adds and divides the
  results, and prints them with \<^verbatim>\<open>{x:.6f}\<close>, \<^verbatim>\<open>{x:.2f}\<close> and \<^verbatim>\<open>{x}\<close>. A Python float is
  an IEEE 754 binary64 value. \<open>Finite neg m e\<close> is \<open>(-1)^neg * m * 2^e\<close>; the operations
  below return a finite result with \<open>m\<close> odd, or \<open>m = 0\<close> and \<open>e = 0\<close> for a zero, so that
  every double has one representation. The sign of a zero is kept: \<^verbatim>\<open>-0.0\<close> prints
  differently from \<^verbatim>\<open>0.0\<close>.
\<close>

datatype pyfloat = Finite bool int int | Infinity bool | NaN

function bitlen :: "int \<Rightarrow> int" where
  "bitlen n = (if n \<le> 0 then 0 else 1 + bitlen (n div 2))"
  by pat_completeness auto
termination
  by (relation "measure nat") auto

declare bitlen.simps [simp del]

definition scale2 :: "int \<Rightarrow> int \<Rightarrow> int \<Rightarrow> int \<times> int" where
  \<comment> \<open>the fraction \<open>n / d * 2^k\<close>, as numerator and denominator\<close>
  "scale2 n d k = (if 0 \<le> k then (n * 2 ^ nat k, d) else (n, d * 2 ^ nat (- k)))"

definition round_half_even :: "int \<times> int \<Rightarrow> int" where
  \<comment> \<open>the integer nearest to a non-negative fraction, ties to the even one\<close>
  "round_half_even nd =
     (let q = fst nd div snd nd; r = fst nd mod snd nd
      in if snd nd < 2 * r \<or> (2 * r = snd nd \<and> odd q) then q + 1 else q)"

function strip_zero_bits :: "int \<Rightarrow> int \<Rightarrow> int \<times> int" where
  "strip_zero_bits m e =
     (if m = 0 then (0, 0)
      else if even m then strip_zero_bits (m div 2) (e + 1)
      else (m, e))"
  by pat_completeness auto
termination
  by (relation "measure (\<lambda>(m, e). nat \<bar>m\<bar>)") auto

declare strip_zero_bits.simps [simp del]

definition round_double :: "bool \<Rightarrow> int \<Rightarrow> int \<Rightarrow> int \<Rightarrow> pyfloat" where
  \<comment> \<open>\<open>n / d * 2^ex\<close> (with \<open>0 \<le> n\<close>, \<open>0 < d\<close>) rounded to the nearest double, ties to
      even: 53 significant bits, exponent of the last bit from \<open>-1074\<close> (subnormals) to
      \<open>971\<close>, infinity beyond\<close>
  "round_double neg n d ex =
     (if n = 0 then Finite neg 0 0
      else
        let e1 = bitlen n - bitlen d + ex - 53;
            e2 = (if 2 ^ 53 \<le> fst (scale2 n d (ex - e1)) div snd (scale2 n d (ex - e1))
                  then e1 + 1 else e1);
            e = max e2 (- 1074);
            m = round_half_even (scale2 n d (ex - e))
        in if 971 < (if m = 2 ^ 53 then e + 1 else e) then Infinity neg
           else case strip_zero_bits m e of (m', e') \<Rightarrow> Finite neg m' e')"

definition float_of_int :: "int \<Rightarrow> pyfloat" where
  "float_of_int i = round_double (i < 0) \<bar>i\<bar> 1 0"

fun float_neg :: "pyfloat \<Rightarrow> pyfloat" where
  "float_neg (Finite neg m e) = Finite (\<not> neg) m e"
| "float_neg (Infinity neg) = Infinity (\<not> neg)"
| "float_neg NaN = NaN"

definition signed :: "bool \<Rightarrow> int \<Rightarrow> int" where
  "signed neg m = (if neg then - m else m)"

fun float_add :: "pyfloat \<Rightarrow> pyfloat \<Rightarrow> pyfloat" where
  "float_add (Finite s1 m1 e1) (Finite s2 m2 e2) =
     (let e = min e1 e2;
          v = signed s1 m1 * 2 ^ nat (e1 - e) + signed s2 m2 * 2 ^ nat (e2 - e)
      in if v = 0 then Finite (s1 \<and> s2) 0 0 else round_double (v < 0) \<bar>v\<bar> 1 e)"
| "float_add (Finite s1 m1 e1) (Infinity s2) = Infinity s2"
| "float_add (Infinity s1) (Finite s2 m2 e2) = Infinity s1"
| "float_add (Infinity s1) (Infinity s2) = (if s1 = s2 then Infinity s1 else NaN)"
| "float_add NaN y = NaN"
| "float_add x NaN = NaN"

fun float_div :: "pyfloat \<Rightarrow> pyfloat \<Rightarrow> pyfloat" where
  \<comment> \<open>\<^verbatim>\<open>x / y\<close> for \<open>y\<close> other than zero; Python raises ZeroDivisionError on a zero
      divisor, and \<^verbatim>\<open>app.py\<close> divides by the literals 60 and 3600 only\<close>
  "float_div (Finite s1 m1 e1) (Finite s2 m2 e2) =
     (if m2 = 0 then (if m1 = 0 then NaN else Infinity (s1 \<noteq> s2))
      else round_double (s1 \<noteq> s2) m1 m2 (e1 - e2))"
| "float_div (Finite s1 m1 e1) (Infinity s2) = Finite (s1 \<noteq> s2) 0 0"
| "float_div (Infinity s1) (Finite s2 m2 e2) = Infinity (s1 \<noteq> s2)"
| "float_div (Infinity s1) (Infinity s2) = NaN"
| "float_div NaN y = NaN"
| "float_div x NaN = NaN"

declare float_add.simps [simp del] float_div.simps [simp del]

fun float_bool :: "pyfloat \<Rightarrow> bool" where
  \<comment> \<open>truth value of a float: \<^verbatim>\<open>x != 0.0\<close>\<close>
  "float_bool (Finite neg m e) = (m \<noteq> 0)"
| "float_bool (Infinity neg) = True"
| "float_bool NaN = True"

fun float_eq_int :: "pyfloat \<Rightarrow> int \<Rightarrow> bool" where
  \<comment> \<open>\<^verbatim>\<open>x == i\<close> for a float \<open>x\<close> and an int \<open>i\<close>: equality of the exact values\<close>
  "float_eq_int (Finite neg m e) i =
     (if 0 \<le> e then signed neg m * 2 ^ nat e = i else signed neg m = i * 2 ^ nat (- e))"
| "float_eq_int (Infinity neg) i = False"
| "float_eq_int NaN i = False"

subsection \<open>Printing floats\<close>

definition digit_char :: "int \<Rightarrow> char" where
  "digit_char d =
     (if d = 0 then CHR ''0'' else if d = 1 then CHR ''1'' else if d = 2 then CHR ''2''
      else if d = 3 then CHR ''3'' else if d = 4 then CHR ''4'' else if d = 5 then CHR ''5''
      else if d = 6 then CHR ''6'' else if d = 7 then CHR ''7'' else if d = 8 then CHR ''8''
      else CHR ''9'')"

function str_int :: "int \<Rightarrow> string" where
  \<comment> \<open>the decimal digits of a non-negative int\<close>
  "str_int n = (if n < 10 then [digit_char n] else str_int (n div 10) @ [digit_char (n mod 10)])"
  by pat_completeness auto
termination
  by (relation "measure nat") auto

declare str_int.simps [simp del]

definition scale10 :: "int \<Rightarrow> int \<Rightarrow> int \<Rightarrow> int \<times> int" where
  \<comment> \<open>the fraction \<open>n / d * 10^k\<close>, as numerator and denominator\<close>
  "scale10 n d k = (if 0 \<le> k then (n * 10 ^ nat k, d) else (n, d * 10 ^ nat (- k)))"

definition zero_pad :: "nat \<Rightarrow> string \<Rightarrow> string" where
  "zero_pad w s = replicate (w - length s) CHR ''0'' @ s"

text \<open>
  \<^verbatim>\<open>f"{x:.6f}"\<close> and \<^verbatim>\<open>f"{x:.2f}"\<close>: the exact value of the double rounded to \<open>p\<close> decimals
  (ties to even), always with \<open>p\<close> digits after the point.
\<close>

fun format_fixed :: "nat \<Rightarrow> pyfloat \<Rightarrow> string" where
  "format_fixed p (Finite neg m e) =
     (let q = round_half_even (scale2 (m * 10 ^ p) 1 e)
      in (if neg then ''-'' else []) @ str_int (q div 10 ^ p) @
         (if p = 0 then [] else ''.'' @ zero_pad p (str_int (q mod 10 ^ p))))"
| "format_fixed p (Infinity neg) = (if neg then ''-inf'' else ''inf'')"
| "format_fixed p NaN = ''nan''"

text \<open>
  \<^verbatim>\<open>str(x)\<close>, which is what \<^verbatim>\<open>f"{x}"\<close> prints: the shortest decimal digit string that
  reads back as the same double, the nearest to the double when several of that length
  do. \<open>decimal_exponent n d\<close> is the \<open>k\<close> with \<open>10^k \<le> n / d < 10^(k + 1)\<close>.
\<close>

definition decimal_exponent :: "int \<Rightarrow> int \<Rightarrow> int" where
  "decimal_exponent n d =
     (let k = int (length (str_int n)) - int (length (str_int d))
      in if snd (scale10 n d (- k)) \<le> fst (scale10 n d (- k)) then k else k - 1)"

definition reads_back :: "int \<Rightarrow> int \<Rightarrow> int \<Rightarrow> int \<Rightarrow> bool" where
  \<comment> \<open>the decimal \<open>c * 10^k\<close> rounds to the double \<open>m * 2^e\<close>\<close>
  "reads_back m e c k =
     (round_double False (fst (scale10 c 1 k)) (snd (scale10 c 1 k)) 0 = Finite False m e)"

definition nearest_digits :: "int \<Rightarrow> int \<Rightarrow> int \<Rightarrow> int \<Rightarrow> int option" where
  \<comment> \<open>of the two \<open>n\<close>-digit decimals around \<open>m * 2^e\<close>, the nearer one that reads back\<close>
  "nearest_digits m e k10 n =
     (let k = k10 - n + 1;
          x = scale10 (fst (scale2 m 1 e)) (snd (scale2 m 1 e)) (- k);
          lo = fst x div snd x;
          r = fst x mod snd x;
          lo_ok = reads_back m e lo k;
          hi_ok = reads_back m e (lo + 1) k
      in if lo_ok \<and> hi_ok then
           Some (if 2 * r < snd x \<or> (2 * r = snd x \<and> even lo) then lo else lo + 1)
         else if lo_ok then Some lo
         else if hi_ok then Some (lo + 1)
         else None)"

fun shortest_digits :: "int \<Rightarrow> int \<Rightarrow> int \<Rightarrow> int list \<Rightarrow> int \<times> int" where
  \<comment> \<open>digits \<open>c\<close> and exponent \<open>k\<close> of the first length that reads back; 17 digits
      always do\<close>
  "shortest_digits m e k10 [] =
     (round_half_even (scale10 (fst (scale2 m 1 e)) (snd (scale2 m 1 e)) (16 - k10)), k10 - 16)"
| "shortest_digits m e k10 (n # ns) =
     (case nearest_digits m e k10 n of
        Some c \<Rightarrow> (c, k10 - n + 1)
      | None \<Rightarrow> shortest_digits m e k10 ns)"

function strip_zero_digits :: "int \<Rightarrow> int \<Rightarrow> int \<times> int" where
  "strip_zero_digits c k =
     (if c = 0 then (0, 0)
      else if c mod 10 = 0 then strip_zero_digits (c div 10) (k + 1)
      else (c, k))"
  by pat_completeness auto
termination
  by (relation "measure (\<lambda>(c, k). nat \<bar>c\<bar>)") auto

declare strip_zero_digits.simps [simp del]

definition repr_digits :: "string \<Rightarrow> int \<Rightarrow> string" where
  \<comment> \<open>the digits \<open>ds\<close> with the decimal point after the first \<open>decpt\<close> of them: plain
      notation for \<open>-4 < decpt \<le> 16\<close>, exponent notation otherwise\<close>
  "repr_digits ds decpt =
     (if - 4 < decpt \<and> decpt \<le> 16 then
        (if decpt \<le> 0 then ''0.'' @ replicate (nat (- decpt)) CHR ''0'' @ ds
         else if int (length ds) \<le> decpt
           then ds @ replicate (nat decpt - length ds) CHR ''0'' @ ''.0''
         else take (nat decpt) ds @ ''.'' @ drop (nat decpt) ds)
      else
        take 1 ds @ (if 1 < length ds then ''.'' @ drop 1 ds else []) @ ''e'' @
        (if decpt - 1 < 0 then ''-'' else ''+'') @ zero_pad 2 (str_int \<bar>decpt - 1\<bar>))"

fun float_repr :: "pyfloat \<Rightarrow> string" where
  "float_repr (Finite neg m e) =
     (if neg then ''-'' else []) @
     (if m = 0 then ''0.0''
      else
        case shortest_digits m e
               (decimal_exponent (fst (scale2 m 1 e)) (snd (scale2 m 1 e)))
               [1, 2, 3, 4, 5, 6, 7, 8, 9, 10, 11, 12, 13, 14, 15, 16, 17] of
          (c, k) \<Rightarrow>
            (case strip_zero_digits c k of
               (c', k') \<Rightarrow> repr_digits (str_int c') (int (length (str_int c')) + k')))"
| "float_repr (Infinity neg) = (if neg then ''-inf'' else ''inf'')"
| "float_repr NaN = ''nan''"

declare format_fixed.simps [simp del] float_repr.simps [simp del]

section \<open>EXIF metadata\<close>

text \<open>
  \<^verbatim>\<open>get_exif_data\<close> returns \<^verbatim>\<open>None\<close> or a dict from tag names to values. Under the key
  \<^verbatim>\<open>"GPSInfo"\<close> it stores a dict of its own making (lines 47 to 52), from GPS tag names to
  the values as the image library decoded them; every other tag is stored as it came.
  The values of the GPS dict are modelled by \<open>pyval\<close>: \<^verbatim>\<open>None\<close>, an int (unbounded, as
  Python's are), a float, a str (a list of its characters) or a tuple of values; a
  rational field stands here as the float that \<^verbatim>\<open>float\<close> returns for it. The other tags
  that \<^verbatim>\<open>app.py\<close> reads (\<^verbatim>\<open>DateTime\<close>, \<^verbatim>\<open>DateTimeOriginal\<close>) are EXIF text fields: \<open>tags\<close>
  holds the text-valued tags, \<open>other_tags\<close> the tags of any other value (such as
  \<^verbatim>\<open>Orientation\<close>), which \<^verbatim>\<open>app.py\<close> stores and never reads. The dicts are association
  lists, read with \<open>map_of\<close>.
\<close>

datatype pyval =
    PNone
  | PInt int
  | PFloat pyfloat
  | PStr string
  | PTuple "pyval list"

type_synonym gps_info = "(string \<times> pyval) list"

record raw_metadata =
  GPSInfo :: "gps_info option"
  tags :: "(string \<times> string) list"
  other_tags :: "(string \<times> pyval) list"

record coordinates =
  latitude :: pyfloat
  longitude :: pyfloat
  altitude :: "pyfloat option"

datatype exn =
  KeyError | ValueError | TypeError | OverflowError | UnboundLocalError | ExpatError

definition dict_is_empty :: "raw_metadata \<Rightarrow> bool" where
  \<comment> \<open>\<^verbatim>\<open>not exif_data\<close> for a dict\<close>
  "dict_is_empty md = (GPSInfo md = None \<and> tags md = [] \<and> other_tags md = [])"

subsection \<open>Built-in operations on values\<close>

text \<open>
  \<^verbatim>\<open>float(v)\<close>: a TypeError for \<^verbatim>\<open>None\<close> and for a tuple, the value for a float. An int is
  rounded to the nearest double; one that rounds beyond the largest double, that is one
  of absolute value \<open>2^1024 - 2^970\<close> or more, raises OverflowError. A str is parsed by
  the interpreter's decimal reader, which is not part of the repository: it is the
  parameter \<open>str_to_float\<close>, \<open>None\<close> where the reader rejects the text (a ValueError).
\<close>

definition int_fits_float :: "int \<Rightarrow> bool" where
  "int_fits_float i = (\<bar>i\<bar> < 2 ^ 1024 - 2 ^ 970)"

fun py_float :: "(string \<Rightarrow> pyfloat option) \<Rightarrow> pyval \<Rightarrow> exn + pyfloat" where
  "py_float str_to_float PNone = Inl TypeError"
| "py_float str_to_float (PInt i) =
     (if int_fits_float i then Inr (float_of_int i) else Inl OverflowError)"
| "py_float str_to_float (PFloat x) = Inr x"
| "py_float str_to_float (PStr s) =
     (case str_to_float s of None \<Rightarrow> Inl ValueError | Some x \<Rightarrow> Inr x)"
| "py_float str_to_float (PTuple vs) = Inl TypeError"

text \<open>
  \<^verbatim>\<open>d, m, s = value\<close> iterates the value: a TypeError when it cannot be iterated, a
  ValueError when it does not give exactly three items. A tuple gives its items, a str
  its characters, each a str of length one.
\<close>

fun py_iter :: "pyval \<Rightarrow> pyval list option" where
  "py_iter (PTuple vs) = Some vs"
| "py_iter (PStr cs) = Some (map (\<lambda>ch. PStr [ch]) cs)"
| "py_iter v = None"

definition unpack3 :: "pyval \<Rightarrow> exn + (pyval \<times> pyval \<times> pyval)" where
  "unpack3 v =
     (case py_iter v of
        None \<Rightarrow> Inl TypeError
      | Some [d, m, s] \<Rightarrow> Inr (d, m, s)
      | Some vs \<Rightarrow> Inl ValueError)"

fun py_eq_str :: "pyval \<Rightarrow> string \<Rightarrow> bool" where
  \<comment> \<open>\<^verbatim>\<open>v == "..."\<close>: only an equal str is equal to a str\<close>
  "py_eq_str (PStr s) t = (s = t)"
| "py_eq_str v t = False"

fun py_eq_int :: "pyval \<Rightarrow> int \<Rightarrow> bool" where
  \<comment> \<open>\<^verbatim>\<open>v == 1\<close>: an int or a float of that value\<close>
  "py_eq_int (PInt i) k = (i = k)"
| "py_eq_int (PFloat x) k = float_eq_int x k"
| "py_eq_int v k = False"

section \<open>Coordinate resolution\<close>

text \<open>
  \<^verbatim>\<open>
  def convert_to_degrees(value):
      d, m, s = value
      return float(d) + float(m)/60 + float(s)/3600
  \<close>
\<close>

definition convert_to_degrees :: "(string \<Rightarrow> pyfloat option) \<Rightarrow> pyval \<Rightarrow> exn + pyfloat" where
  "convert_to_degrees str_to_float v =
     (case unpack3 v of
        Inl err \<Rightarrow> Inl err
      | Inr (d, m, s) \<Rightarrow>
          (case py_float str_to_float d of
             Inl err \<Rightarrow> Inl err
           | Inr fd \<Rightarrow>
               (case py_float str_to_float m of
                  Inl err \<Rightarrow> Inl err
                | Inr fm \<Rightarrow>
                    (case py_float str_to_float s of
                       Inl err \<Rightarrow> Inl err
                     | Inr fs \<Rightarrow>
                         Inr (float_add (float_add fd (float_div fm (float_of_int 60)))
                                (float_div fs (float_of_int 3600)))))))"

text \<open>
  The body of the \<^verbatim>\<open>try\<close> block of \<^verbatim>\<open>get_gps_coordinates\<close> (lines 74 to 97). The
  locals \<^verbatim>\<open>lat\<close> and \<^verbatim>\<open>lon\<close> are assigned only inside their \<^verbatim>\<open>if\<close>; a local that was
  never assigned is \<open>None\<close> in \<open>resolve_latitude\<close> and \<open>resolve_longitude\<close>, and reading
  it in the returned dict raises UnboundLocalError.
\<close>

definition resolve_latitude ::
  "(string \<Rightarrow> pyfloat option) \<Rightarrow> gps_info \<Rightarrow> exn + pyfloat option" where
  "resolve_latitude str_to_float gps_info =
     (case (map_of gps_info ''GPSLatitude'', map_of gps_info ''GPSLatitudeRef'') of
        (Some v, Some r) \<Rightarrow>
          (case convert_to_degrees str_to_float v of
             Inl err \<Rightarrow> Inl err
           | Inr lat \<Rightarrow> Inr (Some (if py_eq_str r ''S'' then float_neg lat else lat)))
      | _ \<Rightarrow> Inr None)"

definition resolve_longitude ::
  "(string \<Rightarrow> pyfloat option) \<Rightarrow> gps_info \<Rightarrow> exn + pyfloat option" where
  "resolve_longitude str_to_float gps_info =
     (case (map_of gps_info ''GPSLongitude'', map_of gps_info ''GPSLongitudeRef'') of
        (Some v, Some r) \<Rightarrow>
          (case convert_to_degrees str_to_float v of
             Inl err \<Rightarrow> Inl err
           | Inr lon \<Rightarrow> Inr (Some (if py_eq_str r ''W'' then float_neg lon else lon)))
      | _ \<Rightarrow> Inr None)"

definition resolve_altitude ::
  "(string \<Rightarrow> pyfloat option) \<Rightarrow> gps_info \<Rightarrow> exn + pyfloat option" where
  "resolve_altitude str_to_float gps_info =
     (case map_of gps_info ''GPSAltitude'' of
        None \<Rightarrow> Inr None
      | Some a \<Rightarrow>
          (case py_float str_to_float a of
             Inl err \<Rightarrow> Inl err
           | Inr alt \<Rightarrow>
               Inr (Some (if (case map_of gps_info ''GPSAltitudeRef'' of
                                None \<Rightarrow> False
                              | Some r \<Rightarrow> py_eq_int r 1)
                          then float_neg alt else alt))))"

definition gps_try_block ::
  "(string \<Rightarrow> pyfloat option) \<Rightarrow> gps_info \<Rightarrow> exn + coordinates" where
  "gps_try_block str_to_float gps_info =
     (case resolve_latitude str_to_float gps_info of
        Inl err \<Rightarrow> Inl err
      | Inr lat \<Rightarrow>
          (case resolve_longitude str_to_float gps_info of
             Inl err \<Rightarrow> Inl err
           | Inr lon \<Rightarrow>
               (case resolve_altitude str_to_float gps_info of
                  Inl err \<Rightarrow> Inl err
                | Inr alt \<Rightarrow>
                    (case lat of
                       None \<Rightarrow> Inl UnboundLocalError
                     | Some la \<Rightarrow>
                         (case lon of
                            None \<Rightarrow> Inl UnboundLocalError
                          | Some lo \<Rightarrow>
                              Inr \<lparr>latitude = la, longitude = lo, altitude = alt\<rparr>)))))"

text \<open>
  \<^verbatim>\<open>get_gps_coordinates\<close>: \<^verbatim>\<open>None\<close> without metadata or without the key \<^verbatim>\<open>"GPSInfo"\<close>;
  otherwise the \<^verbatim>\<open>try\<close> block, whose handler
  \<^verbatim>\<open>except (KeyError, ValueError, TypeError)\<close> returns \<^verbatim>\<open>None\<close>. Any other exception
  (an OverflowError, an UnboundLocalError) leaves the function: \<open>Inl\<close>.
\<close>

definition caught :: "exn \<Rightarrow> bool" where
  "caught err = (err = KeyError \<or> err = ValueError \<or> err = TypeError)"

definition get_gps_coordinates ::
  "(string \<Rightarrow> pyfloat option) \<Rightarrow> raw_metadata option \<Rightarrow> exn + coordinates option" where
  "get_gps_coordinates str_to_float exif_data =
     (case exif_data of
        None \<Rightarrow> Inr None
      | Some md \<Rightarrow>
          (if dict_is_empty md then Inr None
           else case GPSInfo md of
             None \<Rightarrow> Inr None
           | Some gps_info \<Rightarrow>
               (case gps_try_block str_to_float gps_info of
                  Inl err \<Rightarrow> if caught err then Inr None else Inl err
                | Inr c \<Rightarrow> Inr (Some c))))"

section \<open>The KML document\<close>

text \<open>
  \<^verbatim>\<open>create_kml\<close> builds an element tree with \<^verbatim>\<open>ET.Element\<close> and \<^verbatim>\<open>ET.SubElement\<close>, sets
  the text of its leaves, and returns
  \<^verbatim>\<open>minidom.parseString(ET.tostring(kml, 'utf-8')).toprettyxml(indent="  ")\<close>. The tree
  is modelled as built; the serialisation is the XML library's and is the parameter
  \<open>toprettyxml\<close> (it raises on text that is not well-formed XML once written out, such
  as a control character in the file name).
\<close>

datatype element = Element string "(string \<times> string) list" "string option" "element list"

fun tag :: "element \<Rightarrow> string" where
  "tag (Element t attrib txt children) = t"

fun text_of :: "element \<Rightarrow> string option" where
  "text_of (Element t attrib txt children) = txt"

fun children_of :: "element \<Rightarrow> element list" where
  "children_of (Element t attrib txt children) = children"

definition newline :: char where
  "newline = CHR 0x0A"

definition dquote :: char where
  "dquote = CHR 0x22"

definition timestamp_or_unknown :: "string option \<Rightarrow> string" where
  \<comment> \<open>\<^verbatim>\<open>timestamp or 'Unknown'\<close>: \<^verbatim>\<open>None\<close> and the empty str are false\<close>
  "timestamp_or_unknown timestamp =
     (case timestamp of None \<Rightarrow> ''Unknown'' | Some t \<Rightarrow> if t = [] then ''Unknown'' else t)"

definition altitude_paragraph :: "coordinates \<Rightarrow> string" where
  \<comment> \<open>line 130; the test \<^verbatim>\<open>if coordinates['altitude']\<close> is false for \<^verbatim>\<open>None\<close> and for a
      zero\<close>
  "altitude_paragraph c =
     (case altitude c of
        None \<Rightarrow> []
      | Some a \<Rightarrow> if float_bool a then ''<p>Altitude: '' @ format_fixed 2 a @ ''m</p>'' else [])"

definition description_text ::
  "string \<Rightarrow> coordinates \<Rightarrow> string \<Rightarrow> string option \<Rightarrow> string" where
  \<comment> \<open>the f-string of lines 125 to 134, line by line\<close>
  "description_text photo_filename c photo_url timestamp =
     [newline] @
     ''    <![CDATA['' @ [newline] @
     ''    <h3>'' @ photo_filename @ ''</h3>'' @ [newline] @
     ''    <p>Captured: '' @ timestamp_or_unknown timestamp @ ''</p>'' @ [newline] @
     ''    <p>Coordinates: '' @ format_fixed 6 (latitude c) @ '', '' @
       format_fixed 6 (longitude c) @ ''</p>'' @ [newline] @
     ''    '' @ altitude_paragraph c @ [newline] @
     ''    <img src='' @ [dquote] @ photo_url @ [dquote] @ '' width='' @ [dquote] @ ''300'' @
       [dquote] @ '' alt='' @ [dquote] @ ''Photo'' @ [dquote] @ ''/><br/>'' @ [newline] @
     ''    <a href='' @ [dquote] @ photo_url @ [dquote] @ '' target='' @ [dquote] @
       ''_blank'' @ [dquote] @ ''>View Full Size</a>'' @ [newline] @
     ''    ]]>'' @ [newline] @
     ''    ''"

definition coordinates_text :: "coordinates \<Rightarrow> string" where
  \<comment> \<open>lines 140 to 143: \<^verbatim>\<open>f"{lon},{lat},{alt}"\<close> or \<^verbatim>\<open>f"{lon},{lat}"\<close>, each number
      printed by \<^verbatim>\<open>str\<close>\<close>
  "coordinates_text c =
     (case altitude c of
        None \<Rightarrow> float_repr (longitude c) @ '','' @ float_repr (latitude c)
      | Some a \<Rightarrow>
          if float_bool a
          then float_repr (longitude c) @ '','' @ float_repr (latitude c) @ '','' @ float_repr a
          else float_repr (longitude c) @ '','' @ float_repr (latitude c))"

definition kml_tree :: "string \<Rightarrow> coordinates \<Rightarrow> string \<Rightarrow> string option \<Rightarrow> element" where
  "kml_tree photo_filename c photo_url timestamp =
     Element ''kml'' [(''xmlns'', ''http://www.opengis.net/kml/2.2'')] None
       [Element ''Document'' [] None
          [Element ''name'' [] (Some (''Photo Location: '' @ photo_filename)) [],
           Element ''description'' []
             (Some (''GPS location extracted from '' @ photo_filename)) [],
           Element ''Placemark'' [] None
             [Element ''name'' [] (Some photo_filename) [],
              Element ''description'' []
                (Some (description_text photo_filename c photo_url timestamp)) [],
              Element ''Point'' [] None
                [Element ''coordinates'' [] (Some (coordinates_text c)) []]]]]"

definition create_kml ::
  "(element \<Rightarrow> exn + string) \<Rightarrow> string \<Rightarrow> coordinates \<Rightarrow> string \<Rightarrow> string option
     \<Rightarrow> exn + string" where
  "create_kml toprettyxml photo_filename c photo_url timestamp =
     toprettyxml (kml_tree photo_filename c photo_url timestamp)"

text \<open>
  Reading a document back: \<open>find_path\<close> follows a path of tags from an element, taking
  the first child of each tag, as \<^verbatim>\<open>Element.find\<close> does.
\<close>

fun find_child :: "string \<Rightarrow> element list \<Rightarrow> element option" where
  "find_child t [] = None"
| "find_child t (x # xs) = (if tag x = t then Some x else find_child t xs)"

fun find_path :: "string list \<Rightarrow> element \<Rightarrow> element option" where
  "find_path [] x = Some x"
| "find_path (t # ts) x =
     (case find_child t (children_of x) of None \<Rightarrow> None | Some y \<Rightarrow> find_path ts y)"

definition point_text :: "element \<Rightarrow> string option" where
  "point_text doc =
     (case find_path [''Document'', ''Placemark'', ''Point'', ''coordinates''] doc of
        None \<Rightarrow> None
      | Some x \<Rightarrow> text_of x)"

definition placemark_description :: "element \<Rightarrow> string option" where
  "placemark_description doc =
     (case find_path [''Document'', ''Placemark'', ''description''] doc of
        None \<Rightarrow> None
      | Some x \<Rightarrow> text_of x)"

definition points :: "element \<Rightarrow> element list" where
  \<comment> \<open>the geometry elements of the placemark\<close>
  "points doc =
     (case find_path [''Document'', ''Placemark''] doc of
        None \<Rightarrow> []
      | Some pm \<Rightarrow> filter (\<lambda>x. tag x = ''Point'') (children_of pm))"

section \<open>The upload handler\<close>

text \<open>
  \<^verbatim>\<open>upload_file\<close> (lines 155 to 213). What it takes from outside the repository is the
  record \<open>upload_env\<close>: the two \<^verbatim>\<open>uuid4().hex\<close> draws, \<^verbatim>\<open>url_for\<close>, what
  \<^verbatim>\<open>get_exif_data\<close> reads from the saved file (it depends on the image library), the
  str-to-float reader and the XML serialisation. The request is the file name of its
  \<^verbatim>\<open>photo\<close> part, \<open>None\<close> without such a part. The result is the JSON response with its
  status, together with the path and the text of the KML file written on success;
  saving the upload under \<^verbatim>\<open>filepath\<close> is not part of the result.
\<close>

record upload_env =
  str_to_float :: "string \<Rightarrow> pyfloat option"
  toprettyxml :: "element \<Rightarrow> exn + string"
  uuid_photo :: string
  uuid_kml :: string
  url_for :: "string \<Rightarrow> string \<Rightarrow> string"
  get_exif_data :: "string \<Rightarrow> raw_metadata option"

record success =
  photo_url :: string
  kml_url :: string
  found_coordinates :: coordinates
  found_timestamp :: "string option"
  original_filename :: string
  kml_file :: "string \<times> string"

datatype response = Failure string nat | Success success

definition py_lower_char :: "char \<Rightarrow> char" where
  \<comment> \<open>\<^verbatim>\<open>str.lower\<close> on one character below code point 256\<close>
  "py_lower_char ch =
     (let n = of_char ch :: nat
      in if (65 \<le> n \<and> n \<le> 90) \<or> (192 \<le> n \<and> n \<le> 222 \<and> n \<noteq> 215)
         then char_of (n + 32) else ch)"

definition after_last_dot :: "string \<Rightarrow> string" where
  \<comment> \<open>\<^verbatim>\<open>filename.rsplit('.', 1)[1]\<close> for a name with a dot\<close>
  "after_last_dot s = rev (takeWhile (\<lambda>ch. ch \<noteq> CHR ''.'') (rev s))"

definition ALLOWED_EXTENSIONS :: "string list" where
  "ALLOWED_EXTENSIONS = [''jpg'', ''jpeg'', ''png'', ''tiff'', ''heic'']"

definition allowed_file :: "string \<Rightarrow> bool" where
  "allowed_file filename =
     (CHR ''.'' \<in> set filename \<and>
      map py_lower_char (after_last_dot filename) \<in> set ALLOWED_EXTENSIONS)"

definition get_timestamp :: "raw_metadata \<Rightarrow> string option" where
  \<comment> \<open>line 184: \<^verbatim>\<open>exif_data.get('DateTime', exif_data.get('DateTimeOriginal'))\<close>\<close>
  "get_timestamp md =
     (case map_of (tags md) ''DateTime'' of
        Some t \<Rightarrow> Some t
      | None \<Rightarrow> map_of (tags md) ''DateTimeOriginal'')"

definition upload_file :: "upload_env \<Rightarrow> string option \<Rightarrow> exn + response" where
  "upload_file env photo =
     (case photo of
        None \<Rightarrow> Inr (Failure ''No photo file provided'' 400)
      | Some filename \<Rightarrow>
          if filename = [] then Inr (Failure ''No file selected'' 400)
          else if allowed_file filename then
            (let file_extension = map py_lower_char (after_last_dot filename);
                 unique_filename = uuid_photo env @ ''.'' @ file_extension;
                 filepath = ''uploads/'' @ unique_filename
             in case get_exif_data env filepath of
                  None \<Rightarrow> Inr (Failure ''No EXIF data found in image'' 400)
                | Some md \<Rightarrow>
                    if dict_is_empty md
                    then Inr (Failure ''No EXIF data found in image'' 400)
                    else
                      (case get_gps_coordinates (str_to_float env) (Some md) of
                         Inl err \<Rightarrow> Inl err
                       | Inr None \<Rightarrow>
                           Inr (Failure ''No GPS coordinates found in image EXIF data'' 400)
                       | Inr (Some c) \<Rightarrow>
                           (let timestamp = get_timestamp md;
                                url = url_for env ''uploaded_file'' unique_filename
                            in case create_kml (toprettyxml env) filename c url timestamp of
                                 Inl err \<Rightarrow> Inl err
                               | Inr kml_content \<Rightarrow>
                                   Inr (Success
                                     \<lparr>photo_url = url,
                                      kml_url = url_for env ''download_kml''
                                                  (uuid_kml env @ ''.kml''),
                                      found_coordinates = c,
                                      found_timestamp = timestamp,
                                      original_filename = filename,
                                      kml_file = (''kml_files/'' @ uuid_kml env @ ''.kml'',
                                                  kml_content)\<rparr>))))
          else Inr (Failure
                 ''Invalid file type. Please upload JPG, PNG, TIFF, or HEIC files.'' 400))"

section \<open>Example photographs\<close>

text \<open>
  The GPS blocks of the scenarios of section 8 of the specification (a photograph taken
  in Pittsburgh at 40 26 46 N, 79 58 56 W and one taken in Paris at 48 51 29 N,
  2 17 40 E), two malformed blocks, the coordinates that the resolver returns for them,
  and a server on which to run the upload handler.
\<close>

definition no_str_floats :: "string \<Rightarrow> pyfloat option" where
  \<comment> \<open>a reader that rejects every text; the examples hold no number written as text\<close>
  "no_str_floats s = None"

definition pittsburgh :: gps_info where
  "pittsburgh =
     [(''GPSLatitude'', PTuple [PInt 40, PInt 26, PInt 46]), (''GPSLatitudeRef'', PStr ''N''),
      (''GPSLongitude'', PTuple [PInt 79, PInt 58, PInt 56]), (''GPSLongitudeRef'', PStr ''W'')]"

definition paris :: gps_info where
  "paris =
     [(''GPSLatitude'', PTuple [PInt 48, PInt 51, PInt 29]), (''GPSLatitudeRef'', PStr ''N''),
      (''GPSLongitude'', PTuple [PInt 2, PInt 17, PInt 40]), (''GPSLongitudeRef'', PStr ''E'')]"



definition pittsburgh_coordinates :: coordinates where
  \<comment> \<open>what the resolver returns for \<open>pittsburgh\<close>\<close>
  "pittsburgh_coordinates =
     \<lparr>latitude = Finite False 2846142045759151 (- 46),
      longitude = Finite True 1407062133579157 (- 44),
      altitude = None\<rparr>"

definition paris_coordinates :: "pyfloat option \<Rightarrow> coordinates" where
  \<comment> \<open>what the resolver returns for \<open>paris\<close> with an altitude\<close>
  "paris_coordinates alt =
     \<lparr>latitude = Finite False 6876160024813969 (- 47),
      longitude = Finite False 322914348281947 (- 47),
      altitude = alt\<rparr>"

definition description_only :: "element \<Rightarrow> exn + string" where
  \<comment> \<open>a serialisation for the examples: the description of the placemark alone\<close>
  "description_only doc =
     Inr (case placemark_description doc of None \<Rightarrow> [] | Some d \<Rightarrow> d)"

definition example_env :: "raw_metadata option \<Rightarrow> upload_env" where
  \<comment> \<open>a server on localhost whose image library reads the given metadata\<close>
  "example_env md =
     \<lparr>str_to_float = no_str_floats,
      toprettyxml = description_only,
      uuid_photo = ''0f8fad5bd9cb469fa16570867728950e'',
      uuid_kml = ''7c9e6679742540de944be07fc1f90ae7'',
      url_for = (\<lambda>endpoint filename.
                  (if endpoint = ''uploaded_file'' then ''http://localhost:5000/uploads/''
                   else ''http://localhost:5000/kml/'') @ filename),
      get_exif_data = (\<lambda>path. md)\<rparr>"




text \<open>
  The sign of a float is its sign bit (set for negative numbers and for \<^verbatim>\<open>-0.0\<close>);
  \<open>nonneg_float\<close> holds for zero, the positive numbers and positive infinity.
\<close>

fun sign_bit :: "pyfloat \<Rightarrow> bool" where
  "sign_bit (Finite neg m e) = neg"
| "sign_bit (Infinity neg) = neg"
| "sign_bit NaN = False"

fun nonneg_float :: "pyfloat \<Rightarrow> bool" where
  "nonneg_float (Finite neg m e) = (\<not> neg \<and> 0 \<le> m)"
| "nonneg_float (Infinity neg) = (\<not> neg)"
| "nonneg_float NaN = False"

section \<open>Which exceptions leave the resolver\<close>

lemma int_fits_float_small [simp]: "\<bar>i\<bar> < 2 ^ 64 \<Longrightarrow> int_fits_float i"
proof -
  have "(2::int) ^ 64 < 2 ^ 1024 - 2 ^ 970" by simp
  then show "\<bar>i\<bar> < 2 ^ 64 \<Longrightarrow> int_fits_float i"
    unfolding int_fits_float_def by linarith
qed

lemma float_of_int_at_the_bound:
  "float_of_int (2 ^ 1024 - 2 ^ 970 - 1) = Finite False 9007199254740991 971"
  "float_of_int (2 ^ 1024 - 2 ^ 970) = Infinity False"
  by code_simp+

lemma py_float_errors: "py_float p v = Inl err \<Longrightarrow> caught err \<or> err = OverflowError"
  by (cases v) (auto simp: caught_def split: option.splits if_splits)


lemma unpack3_caught: "unpack3 v = Inl err \<Longrightarrow> caught err"
  by (auto simp: unpack3_def caught_def split: option.splits list.splits)


lemma unpack3_items:
  "unpack3 v = Inr (d, m, s) \<Longrightarrow> py_iter v = Some [d, m, s]"
  by (auto simp: unpack3_def split: option.splits list.splits)

lemma convert_to_degrees_errors:
  assumes "convert_to_degrees p v = Inl err"
  shows "caught err \<or>
         (err = OverflowError \<and>
          (\<exists>vs x. py_iter v = Some vs \<and> x \<in> set vs \<and> py_float p x = Inl OverflowError))"
proof (cases "unpack3 v")
  case (Inl e)
  with assms show ?thesis
    by (auto simp: convert_to_degrees_def dest: unpack3_caught)
next
  case (Inr dms)
  obtain d m s where dms: "dms = (d, m, s)" by (cases dms)
  with Inr have items: "py_iter v = Some [d, m, s]" by (simp add: unpack3_items)
  from assms Inr dms
  have "py_float p d = Inl err \<or> py_float p m = Inl err \<or> py_float p s = Inl err"
    by (auto simp: convert_to_degrees_def split: sum.splits)
  then obtain x where x: "x \<in> set [d, m, s]" "py_float p x = Inl err" by auto
  from x(2) have "caught err \<or> err = OverflowError" by (rule py_float_errors)
  with items x show ?thesis by blast
qed

lemma resolve_latitude_errors:
  "resolve_latitude p g = Inl err \<Longrightarrow> caught err \<or> err = OverflowError"
  by (auto simp: resolve_latitude_def split: option.splits sum.splits
      dest: convert_to_degrees_errors)

lemma resolve_longitude_errors:
  "resolve_longitude p g = Inl err \<Longrightarrow> caught err \<or> err = OverflowError"
  by (auto simp: resolve_longitude_def split: option.splits sum.splits
      dest: convert_to_degrees_errors)

lemma resolve_altitude_errors:
  "resolve_altitude p g = Inl err \<Longrightarrow> caught err \<or> err = OverflowError"
  by (auto simp: resolve_altitude_def split: option.splits sum.splits dest: py_float_errors)

lemma get_gps_coordinates_gps:
  "GPSInfo md = Some g \<Longrightarrow>
   get_gps_coordinates p (Some md) =
     (case gps_try_block p g of
        Inl err \<Rightarrow> if caught err then Inr None else Inl err
      | Inr c \<Rightarrow> Inr (Some c))"
  by (simp add: get_gps_coordinates_def dict_is_empty_def)

section \<open>Missing GPS block\<close>

text \<open>
  C7. For metadata without the key \<^verbatim>\<open>"GPSInfo"\<close>, and for absent metadata, the resolver
  returns \<^verbatim>\<open>None\<close> and raises nothing: the result is \<open>Inr None\<close>, whatever the other tags
  are.
\<close>

theorem resolver_absent_without_gpsinfo:
  assumes "exif_data = None \<or> (\<exists>md. exif_data = Some md \<and> GPSInfo md = None)"
  shows "get_gps_coordinates p exif_data = Inr None"
  using assms by (auto simp: get_gps_coordinates_def)

theorem resolver_absent_without_gpsinfo_witness:
  "get_gps_coordinates (\<lambda>s. None) None = Inr None \<and>
   get_gps_coordinates (\<lambda>s. None)
     (Some \<lparr>GPSInfo = None, tags = [(''DateTime'', ''2024:05:01 10:00:00'')], other_tags = []\<rparr>) = Inr None"
proof
  show "get_gps_coordinates (\<lambda>s. None) None = Inr None"
    by (rule resolver_absent_without_gpsinfo) simp
  show "get_gps_coordinates (\<lambda>s. None)
     (Some \<lparr>GPSInfo = None, tags = [(''DateTime'', ''2024:05:01 10:00:00'')], other_tags = []\<rparr>) = Inr None"
    by (rule resolver_absent_without_gpsinfo) simp
qed

section \<open>The examples, evaluated\<close>

text \<open>
  The degrees that \<^verbatim>\<open>convert_to_degrees\<close> computes for the example photographs.
\<close>

lemma degrees_40_26_46:
  "float_add (float_add (float_of_int 40) (float_div (float_of_int 26) (float_of_int 60)))
     (float_div (float_of_int 46) (float_of_int 3600)) = Finite False 2846142045759151 (- 46)"
  by code_simp

lemma degrees_79_58_56:
  "float_add (float_add (float_of_int 79) (float_div (float_of_int 58) (float_of_int 60)))
     (float_div (float_of_int 56) (float_of_int 3600)) = Finite False 1407062133579157 (- 44)"
  by code_simp

lemma degrees_48_51_29:
  "float_add (float_add (float_of_int 48) (float_div (float_of_int 51) (float_of_int 60)))
     (float_div (float_of_int 29) (float_of_int 3600)) = Finite False 6876160024813969 (- 47)"
  by code_simp

lemma degrees_2_17_40:
  "float_add (float_add (float_of_int 2) (float_div (float_of_int 17) (float_of_int 60)))
     (float_div (float_of_int 40) (float_of_int 3600)) = Finite False 322914348281947 (- 47)"
  by code_simp

lemma float_of_int_0: "float_of_int 0 = Finite False 0 0"
  by code_simp

lemma float_of_int_35: "float_of_int 35 = Finite False 35 0"
  by code_simp

lemma pittsburgh_latitude:
  "resolve_latitude p pittsburgh = Inr (Some (Finite False 2846142045759151 (- 46)))"
  by (simp add: resolve_latitude_def pittsburgh_def convert_to_degrees_def unpack3_def
      degrees_40_26_46)

lemma pittsburgh_longitude:
  "resolve_longitude p pittsburgh = Inr (Some (Finite True 1407062133579157 (- 44)))"
  by (simp add: resolve_longitude_def pittsburgh_def convert_to_degrees_def unpack3_def
      degrees_79_58_56)

lemma paris_latitude:
  "resolve_latitude p (paris @ extra) = Inr (Some (Finite False 6876160024813969 (- 47)))"
  by (simp add: resolve_latitude_def paris_def convert_to_degrees_def unpack3_def
      degrees_48_51_29)

lemma paris_longitude:
  "resolve_longitude p (paris @ extra) = Inr (Some (Finite False 322914348281947 (- 47)))"
  by (simp add: resolve_longitude_def paris_def convert_to_degrees_def unpack3_def
      degrees_2_17_40)

section \<open>Degrees, minutes and seconds\<close>



section \<open>Altitude\<close>

text \<open>
  C9. When \<^verbatim>\<open>GPSAltitude\<close> is present and converts, and latitude and longitude resolve,
  the altitude is returned as converted when \<^verbatim>\<open>GPSAltitudeRef\<close> is absent, and otherwise
  negated exactly when \<^verbatim>\<open>GPSAltitudeRef == 1\<close> holds: for an int reference that is the
  int 1 and no other. (Python's \<^verbatim>\<open>==\<close> also holds for the float \<^verbatim>\<open>1.0\<close>; \<open>py_eq_int\<close>
  says so.)
\<close>

theorem altitude_negated_iff_ref_is_1:
  assumes gps: "GPSInfo md = Some g"
    and lat: "resolve_latitude p g = Inr (Some la)"
    and lon: "resolve_longitude p g = Inr (Some lo)"
    and alt: "map_of g ''GPSAltitude'' = Some a" "py_float p a = Inr x"
  shows "get_gps_coordinates p (Some md) =
           Inr (Some \<lparr>latitude = la, longitude = lo,
                      altitude =
                        Some (case map_of g ''GPSAltitudeRef'' of
                                None \<Rightarrow> x
                              | Some r \<Rightarrow> if py_eq_int r 1 then float_neg x else x)\<rparr>) \<and>
         (\<forall>i. map_of g ''GPSAltitudeRef'' = Some (PInt i) \<longrightarrow>
              get_gps_coordinates p (Some md) =
                Inr (Some \<lparr>latitude = la, longitude = lo,
                           altitude = Some (if i = 1 then float_neg x else x)\<rparr>))"
  using assms
  by (simp add: get_gps_coordinates_gps gps_try_block_def resolve_altitude_def
      split: option.splits)

theorem altitude_negated_iff_ref_is_1_witness:
  "get_gps_coordinates no_str_floats
     (Some \<lparr>GPSInfo = Some (paris @ [(''GPSAltitude'', PInt 35)]), tags = [], other_tags = []\<rparr>) =
     Inr (Some \<lparr>latitude = Finite False 6876160024813969 (- 47),
                longitude = Finite False 322914348281947 (- 47),
                altitude = Some (Finite False 35 0)\<rparr>) \<and>
   get_gps_coordinates no_str_floats
     (Some \<lparr>GPSInfo = Some (paris @ [(''GPSAltitude'', PInt 35), (''GPSAltitudeRef'', PInt 1)]),
            tags = [], other_tags = []\<rparr>) =
     Inr (Some \<lparr>latitude = Finite False 6876160024813969 (- 47),
                longitude = Finite False 322914348281947 (- 47),
                altitude = Some (Finite True 35 0)\<rparr>) \<and>
   get_gps_coordinates no_str_floats
     (Some \<lparr>GPSInfo = Some (paris @ [(''GPSAltitude'', PInt 35), (''GPSAltitudeRef'', PInt 2)]),
            tags = [], other_tags = []\<rparr>) =
     Inr (Some \<lparr>latitude = Finite False 6876160024813969 (- 47),
                longitude = Finite False 322914348281947 (- 47),
                altitude = Some (Finite False 35 0)\<rparr>)"
proof (intro conjI)
  show "get_gps_coordinates no_str_floats
     (Some \<lparr>GPSInfo = Some (paris @ [(''GPSAltitude'', PInt 35)]), tags = [], other_tags = []\<rparr>) =
     Inr (Some \<lparr>latitude = Finite False 6876160024813969 (- 47),
                longitude = Finite False 322914348281947 (- 47),
                altitude = Some (Finite False 35 0)\<rparr>)"
    using altitude_negated_iff_ref_is_1
      [where md = "\<lparr>GPSInfo = Some (paris @ [(''GPSAltitude'', PInt 35)]), tags = [], other_tags = []\<rparr>"
         and g = "paris @ [(''GPSAltitude'', PInt 35)]" and p = no_str_floats
         and a = "PInt 35" and x = "Finite False 35 0",
       OF _ paris_latitude paris_longitude]
    by (simp add: paris_def float_of_int_35)
  show "get_gps_coordinates no_str_floats
     (Some \<lparr>GPSInfo = Some (paris @ [(''GPSAltitude'', PInt 35), (''GPSAltitudeRef'', PInt 1)]),
            tags = [], other_tags = []\<rparr>) =
     Inr (Some \<lparr>latitude = Finite False 6876160024813969 (- 47),
                longitude = Finite False 322914348281947 (- 47),
                altitude = Some (Finite True 35 0)\<rparr>)"
    using altitude_negated_iff_ref_is_1
      [where md = "\<lparr>GPSInfo = Some (paris @ [(''GPSAltitude'', PInt 35),
                                                (''GPSAltitudeRef'', PInt 1)]), tags = [], other_tags = []\<rparr>"
         and g = "paris @ [(''GPSAltitude'', PInt 35), (''GPSAltitudeRef'', PInt 1)]"
         and p = no_str_floats and a = "PInt 35" and x = "Finite False 35 0",
       OF _ paris_latitude paris_longitude]
    by (simp add: paris_def float_of_int_35)
  show "get_gps_coordinates no_str_floats
     (Some \<lparr>GPSInfo = Some (paris @ [(''GPSAltitude'', PInt 35), (''GPSAltitudeRef'', PInt 2)]),
            tags = [], other_tags = []\<rparr>) =
     Inr (Some \<lparr>latitude = Finite False 6876160024813969 (- 47),
                longitude = Finite False 322914348281947 (- 47),
                altitude = Some (Finite False 35 0)\<rparr>)"
    using altitude_negated_iff_ref_is_1
      [where md = "\<lparr>GPSInfo = Some (paris @ [(''GPSAltitude'', PInt 35),
                                                (''GPSAltitudeRef'', PInt 2)]), tags = [], other_tags = []\<rparr>"
         and g = "paris @ [(''GPSAltitude'', PInt 35), (''GPSAltitudeRef'', PInt 2)]"
         and p = no_str_floats and a = "PInt 35" and x = "Finite False 35 0",
       OF _ paris_latitude paris_longitude]
    by (simp add: paris_def float_of_int_35)
qed

section \<open>Malformed coordinates\<close>





section \<open>Partial coordinates\<close>

lemma unassigned_local_raises:
  assumes "GPSInfo md = Some g"
    and "resolve_latitude p g = Inr lat" "resolve_longitude p g = Inr lon"
    and "resolve_altitude p g = Inr alt"
    and "lat = None \<or> lon = None"
  shows "get_gps_coordinates p (Some md) = Inl UnboundLocalError"
  using assms
  by (auto simp: get_gps_coordinates_gps gps_try_block_def caught_def split: option.splits)

text \<open>
  C1. A GPS block with the latitude fields and without the longitude fields, or the
  other way round, does not resolve to \<^verbatim>\<open>None\<close>: when the fields that are present
  convert, line 93 reads a local that was never assigned, and the UnboundLocalError is
  not among the exceptions of the handler, so it leaves \<^verbatim>\<open>get_gps_coordinates\<close>.
\<close>

theorem partial_gps_fields_raise:
  "get_gps_coordinates p
     (Some \<lparr>GPSInfo = Some [(''GPSLatitude'', PTuple [PInt 40, PInt 26, PInt 46]),
                           (''GPSLatitudeRef'', PStr ''N'')], tags = [], other_tags = []\<rparr>)
     = Inl UnboundLocalError \<and>
   get_gps_coordinates p
     (Some \<lparr>GPSInfo = Some [(''GPSLongitude'', PTuple [PInt 79, PInt 58, PInt 56]),
                           (''GPSLongitudeRef'', PStr ''W'')], tags = [], other_tags = []\<rparr>)
     = Inl UnboundLocalError"
  by (simp add: get_gps_coordinates_def gps_try_block_def resolve_latitude_def
      resolve_longitude_def resolve_altitude_def convert_to_degrees_def unpack3_def
      dict_is_empty_def caught_def)

section \<open>The point of the placemark\<close>

lemma pittsburgh_resolves:
  "get_gps_coordinates p (Some \<lparr>GPSInfo = Some pittsburgh, tags = ts, other_tags = os\<rparr>) =
     Inr (Some pittsburgh_coordinates)"
proof -
  have "resolve_altitude p pittsburgh = Inr None"
    by (simp add: resolve_altitude_def pittsburgh_def)
  then show ?thesis
    by (simp add: get_gps_coordinates_gps gps_try_block_def pittsburgh_latitude
        pittsburgh_longitude pittsburgh_coordinates_def)
qed

lemma paris_resolves:
  assumes "resolve_altitude p (paris @ extra) = Inr alt"
  shows "get_gps_coordinates p (Some \<lparr>GPSInfo = Some (paris @ extra), tags = ts, other_tags = os\<rparr>) =
     Inr (Some (paris_coordinates alt))"
  using assms
  by (simp add: get_gps_coordinates_gps gps_try_block_def paris_latitude paris_longitude
      paris_coordinates_def)

lemma str_pittsburgh:
  "float_repr (Finite False 2846142045759151 (- 46)) = ''40.44611111111111''"
  "float_repr (Finite True 1407062133579157 (- 44)) = ''-79.98222222222222''"
  by code_simp+

lemma str_paris:
  "float_repr (Finite False 6876160024813969 (- 47)) = ''48.85805555555556''"
  "float_repr (Finite False 322914348281947 (- 47)) = ''2.2944444444444443''"
  by code_simp+

lemma str_altitudes:
  "float_repr (Finite False 35 0) = ''35.0''"
  "float_repr (Finite True 5 1) = ''-10.0''"
  "float_repr (Finite False 0 0) = ''0.0''"
  by code_simp+

lemma six_decimals_pittsburgh:
  "format_fixed 6 (Finite False 2846142045759151 (- 46)) = ''40.446111''"
  "format_fixed 6 (Finite True 1407062133579157 (- 44)) = ''-79.982222''"
  by code_simp+

lemma six_decimals_paris:
  "format_fixed 6 (Finite False 6876160024813969 (- 47)) = ''48.858056''"
  "format_fixed 6 (Finite False 322914348281947 (- 47)) = ''2.294444''"
  by code_simp+

lemma two_decimals:
  "format_fixed 2 (Finite False 0 0) = ''0.00''"
  "format_fixed 2 (Finite False 35 0) = ''35.00''"
  by code_simp+

lemma point_text_kml_tree:
  "point_text (kml_tree n c u t) = Some (coordinates_text c)"
  by (simp add: point_text_def kml_tree_def)

lemma points_kml_tree:
  "points (kml_tree n c u t) =
     [Element ''Point'' [] None [Element ''coordinates'' [] (Some (coordinates_text c)) []]]"
  by (simp add: points_def kml_tree_def)

lemma placemark_description_kml_tree:
  "placemark_description (kml_tree n c u t) = Some (description_text n c u t)"
  by (simp add: placemark_description_def kml_tree_def)

text \<open>
  C5, as the code has it. The text of the point is \<^verbatim>\<open>longitude,latitude\<close> when there is
  no altitude and \<^verbatim>\<open>longitude,latitude,altitude\<close> when there is an altitude other than
  zero, each number printed by \<^verbatim>\<open>str\<close> in full: none is rounded to 6 or to 2 decimals.
  For the photograph at 40 26 46 N, 79 58 56 W without altitude the text is
  \<^verbatim>\<open>-79.98222222222222,40.44611111111111\<close>.
\<close>

theorem point_text_prints_floats_in_full:
  "(altitude c = None \<longrightarrow>
      point_text (kml_tree n c u t) =
        Some (float_repr (longitude c) @ '','' @ float_repr (latitude c))) \<and>
   (\<forall>a. altitude c = Some a \<and> float_bool a \<longrightarrow>
      point_text (kml_tree n c u t) =
        Some (float_repr (longitude c) @ '','' @ float_repr (latitude c) @ '','' @
              float_repr a)) \<and>
   get_gps_coordinates p (Some \<lparr>GPSInfo = Some pittsburgh, tags = ts, other_tags = os\<rparr>) =
     Inr (Some pittsburgh_coordinates) \<and>
   point_text (kml_tree n pittsburgh_coordinates u t) =
     Some ''-79.98222222222222,40.44611111111111''"
  by (simp add: point_text_kml_tree coordinates_text_def pittsburgh_resolves str_pittsburgh
      pittsburgh_coordinates_def)

theorem point_text_prints_floats_in_full_witness:
  "point_text (kml_tree ''photo.jpg'' pittsburgh_coordinates
      ''http://localhost:5000/uploads/photo.jpg'' None) =
     Some ''-79.98222222222222,40.44611111111111'' \<and>
   point_text (kml_tree ''photo.jpg'' (paris_coordinates (Some (Finite False 35 0)))
      ''http://localhost:5000/uploads/photo.jpg'' None) =
     Some ''2.2944444444444443,48.85805555555556,35.0''"
proof
  have "altitude pittsburgh_coordinates = None"
    by (simp add: pittsburgh_coordinates_def)
  with point_text_prints_floats_in_full
    [of pittsburgh_coordinates "''photo.jpg''" "''http://localhost:5000/uploads/photo.jpg''"
      None]
  show "point_text (kml_tree ''photo.jpg'' pittsburgh_coordinates
      ''http://localhost:5000/uploads/photo.jpg'' None) =
     Some ''-79.98222222222222,40.44611111111111''"
    by (simp add: pittsburgh_coordinates_def str_pittsburgh)
next
  have "altitude (paris_coordinates (Some (Finite False 35 0))) = Some (Finite False 35 0) \<and>
        float_bool (Finite False 35 0)"
    by (simp add: paris_coordinates_def)
  with point_text_prints_floats_in_full
    [of "paris_coordinates (Some (Finite False 35 0))" "''photo.jpg''"
      "''http://localhost:5000/uploads/photo.jpg''" None]
  have "point_text (kml_tree ''photo.jpg'' (paris_coordinates (Some (Finite False 35 0)))
      ''http://localhost:5000/uploads/photo.jpg'' None) =
     Some (float_repr (longitude (paris_coordinates (Some (Finite False 35 0)))) @ '','' @
           float_repr (latitude (paris_coordinates (Some (Finite False 35 0)))) @ '','' @
           float_repr (Finite False 35 0))"
    by blast
  then show "point_text (kml_tree ''photo.jpg'' (paris_coordinates (Some (Finite False 35 0)))
      ''http://localhost:5000/uploads/photo.jpg'' None) =
     Some ''2.2944444444444443,48.85805555555556,35.0''"
    by (simp add: paris_coordinates_def str_paris str_altitudes)
qed

text \<open>
  The claim as the specification words it fails on that photograph: the text of the
  point is not the pair rounded to 6 decimals.
\<close>

theorem point_text_not_rounded:
  "get_gps_coordinates no_str_floats (Some \<lparr>GPSInfo = Some pittsburgh, tags = [], other_tags = []\<rparr>) =
     Inr (Some pittsburgh_coordinates) \<and>
   format_fixed 6 (longitude pittsburgh_coordinates) @ '','' @
     format_fixed 6 (latitude pittsburgh_coordinates) = ''-79.982222,40.446111'' \<and>
   point_text (kml_tree ''photo.jpg'' pittsburgh_coordinates
      ''http://localhost:5000/uploads/photo.jpg'' None) =
     Some ''-79.98222222222222,40.44611111111111'' \<and>
   point_text (kml_tree ''photo.jpg'' pittsburgh_coordinates
      ''http://localhost:5000/uploads/photo.jpg'' None) \<noteq>
     Some ''-79.982222,40.446111''"
  by (simp add: point_text_kml_tree coordinates_text_def pittsburgh_resolves str_pittsburgh
      six_decimals_pittsburgh pittsburgh_coordinates_def)

section \<open>An altitude of zero\<close>

text \<open>
  C6. The placemark has one point and its text starts with the longitude. For a
  photograph taken at sea level the altitude is present in the coordinates, yet the
  test \<^verbatim>\<open>if coordinates['altitude']\<close> on line 140 is false for \<^verbatim>\<open>0.0\<close>, and the text of the
  point is \<^verbatim>\<open>longitude,latitude\<close> without the altitude.
\<close>

theorem zero_altitude_missing_from_point:
  "altitude (paris_coordinates (Some (Finite False 0 0))) = Some (Finite False 0 0) \<and>
   map tag (points (kml_tree n (paris_coordinates (Some (Finite False 0 0))) u t)) =
     [''Point''] \<and>
   point_text (kml_tree n (paris_coordinates (Some (Finite False 0 0))) u t) =
     Some ''2.2944444444444443,48.85805555555556'' \<and>
   point_text (kml_tree n (paris_coordinates (Some (Finite False 35 0))) u t) =
     Some ''2.2944444444444443,48.85805555555556,35.0''"
  by (simp add: point_text_kml_tree points_kml_tree coordinates_text_def
      paris_coordinates_def str_paris str_altitudes)

text \<open>
  C3. An altitude of exactly 0 above sea level resolves to \<^verbatim>\<open>0.0\<close>, which is present in
  the coordinates and would print as \<^verbatim>\<open>0.00\<close>; the test on line 130 is false for it, and
  the description of the placemark has an empty line where the altitude paragraph
  would stand. An altitude of 10.0 with \<^verbatim>\<open>GPSAltitudeRef\<close> 1 resolves to \<^verbatim>\<open>-10.0\<close>.
\<close>

theorem zero_altitude_missing_from_description:
  "get_gps_coordinates no_str_floats
     (Some \<lparr>GPSInfo = Some (paris @ [(''GPSAltitude'', PInt 0), (''GPSAltitudeRef'', PInt 0)]),
            tags = [], other_tags = []\<rparr>) =
     Inr (Some (paris_coordinates (Some (Finite False 0 0)))) \<and>
   format_fixed 2 (Finite False 0 0) = ''0.00'' \<and>
   placemark_description
     (kml_tree ''photo.jpg'' (paris_coordinates (Some (Finite False 0 0)))
        ''http://localhost:5000/uploads/photo.jpg'' None) =
     Some ([newline] @
       ''    <![CDATA['' @ [newline] @
       ''    <h3>photo.jpg</h3>'' @ [newline] @
       ''    <p>Captured: Unknown</p>'' @ [newline] @
       ''    <p>Coordinates: 48.858056, 2.294444</p>'' @ [newline] @
       ''    '' @ [newline] @
       ''    <img src='' @ [dquote] @ ''http://localhost:5000/uploads/photo.jpg'' @ [dquote] @
         '' width='' @ [dquote] @ ''300'' @ [dquote] @ '' alt='' @ [dquote] @ ''Photo'' @
         [dquote] @ ''/><br/>'' @ [newline] @
       ''    <a href='' @ [dquote] @ ''http://localhost:5000/uploads/photo.jpg'' @ [dquote] @
         '' target='' @ [dquote] @ ''_blank'' @ [dquote] @ ''>View Full Size</a>'' @
         [newline] @
       ''    ]]>'' @ [newline] @
       ''    '') \<and>
   get_gps_coordinates no_str_floats
     (Some \<lparr>GPSInfo = Some (paris @ [(''GPSAltitude'', PFloat (Finite False 5 1)),
                                      (''GPSAltitudeRef'', PInt 1)]),
            tags = [], other_tags = []\<rparr>) =
     Inr (Some (paris_coordinates (Some (Finite True 5 1)))) \<and>
   float_repr (Finite False 5 1) = ''10.0'' \<and>
   float_repr (Finite True 5 1) = ''-10.0''"
proof -
  have zero: "resolve_altitude no_str_floats
      (paris @ [(''GPSAltitude'', PInt 0), (''GPSAltitudeRef'', PInt 0)]) =
      Inr (Some (Finite False 0 0))"
    by (simp add: resolve_altitude_def paris_def float_of_int_0)
  have ten: "resolve_altitude no_str_floats
      (paris @ [(''GPSAltitude'', PFloat (Finite False 5 1)), (''GPSAltitudeRef'', PInt 1)]) =
      Inr (Some (Finite True 5 1))"
    by (simp add: resolve_altitude_def paris_def)
  have "float_repr (Finite False 5 1) = ''10.0''"
    by code_simp
  then show ?thesis
    by (simp add: paris_resolves [OF zero] paris_resolves [OF ten] two_decimals
        placemark_description_kml_tree description_text_def altitude_paragraph_def
        timestamp_or_unknown_def paris_coordinates_def six_decimals_paris str_altitudes)
qed

section \<open>The timestamp of the placemark\<close>

lemma photo_jpg_allowed:
  "allowed_file ''photo.jpg''"
  "map py_lower_char (after_last_dot ''photo.jpg'') = ''jpg''"
  by code_simp+





section \<open>Further properties of the pipeline\<close>

text \<open>
  The placemark holds exactly one point, and the text of the point begins with the
  longitude, a comma and the latitude, whatever the altitude is.
\<close>

theorem placemark_has_one_point_longitude_first:
  "length (points (kml_tree n c u t)) = 1 \<and>
   (\<exists>rest. point_text (kml_tree n c u t) =
      Some (float_repr (longitude c) @ '','' @ float_repr (latitude c) @ rest))"
  by (simp add: points_kml_tree point_text_kml_tree coordinates_text_def split: option.splits)

text \<open>
  An exception leaves the resolver only as the OverflowError of an int beyond the range
  of a float, or as the UnboundLocalError of an unassigned \<^verbatim>\<open>lat\<close> or \<^verbatim>\<open>lon\<close>, the latter
  only when the GPS block lacks one of the four latitude and longitude fields.
\<close>

theorem exceptions_that_leave_the_resolver:
  assumes "isl (get_gps_coordinates p exif_data)"
  shows "get_gps_coordinates p exif_data = Inl OverflowError \<or>
         (get_gps_coordinates p exif_data = Inl UnboundLocalError \<and>
          (\<exists>md g. exif_data = Some md \<and> GPSInfo md = Some g \<and>
             (map_of g ''GPSLatitude'' = None \<or> map_of g ''GPSLatitudeRef'' = None \<or>
              map_of g ''GPSLongitude'' = None \<or> map_of g ''GPSLongitudeRef'' = None)))"
proof -
  from assms obtain err where err: "get_gps_coordinates p exif_data = Inl err"
    by (cases "get_gps_coordinates p exif_data") auto
  then obtain md g where md: "exif_data = Some md" "GPSInfo md = Some g"
    by (auto simp: get_gps_coordinates_def split: option.splits if_splits)
  with err have block: "gps_try_block p g = Inl err" "\<not> caught err"
    by (auto simp: get_gps_coordinates_gps split: sum.splits if_splits)
  then have "err = OverflowError \<or>
      (err = UnboundLocalError \<and>
       (resolve_latitude p g = Inr None \<or> resolve_longitude p g = Inr None))"
    by (auto simp: gps_try_block_def split: sum.splits option.splits
        dest: resolve_latitude_errors resolve_longitude_errors resolve_altitude_errors)
  then have "err = OverflowError \<or>
      (err = UnboundLocalError \<and>
       (map_of g ''GPSLatitude'' = None \<or> map_of g ''GPSLatitudeRef'' = None \<or>
        map_of g ''GPSLongitude'' = None \<or> map_of g ''GPSLongitudeRef'' = None))"
    by (auto simp: resolve_latitude_def resolve_longitude_def
        split: option.splits sum.splits)
  with md err show ?thesis by blast
qed

theorem exceptions_that_leave_the_resolver_witness:
  "get_gps_coordinates no_str_floats
     (Some \<lparr>GPSInfo = Some [(''GPSLatitude'', PTuple [PInt 40, PInt 26, PInt 46]),
                           (''GPSLatitudeRef'', PStr ''N'')],
            tags = [], other_tags = []\<rparr>) = Inl OverflowError \<or>
   (get_gps_coordinates no_str_floats
      (Some \<lparr>GPSInfo = Some [(''GPSLatitude'', PTuple [PInt 40, PInt 26, PInt 46]),
                            (''GPSLatitudeRef'', PStr ''N'')],
             tags = [], other_tags = []\<rparr>) = Inl UnboundLocalError \<and>
    (\<exists>md g. Some \<lparr>GPSInfo = Some [(''GPSLatitude'', PTuple [PInt 40, PInt 26, PInt 46]),
                                   (''GPSLatitudeRef'', PStr ''N'')],
                    tags = [], other_tags = []\<rparr> = Some md \<and>
       GPSInfo md = Some g \<and>
       (map_of g ''GPSLatitude'' = None \<or> map_of g ''GPSLatitudeRef'' = None \<or>
        map_of g ''GPSLongitude'' = None \<or> map_of g ''GPSLongitudeRef'' = None)))"
proof (rule exceptions_that_leave_the_resolver)
  show "isl (get_gps_coordinates no_str_floats
     (Some \<lparr>GPSInfo = Some [(''GPSLatitude'', PTuple [PInt 40, PInt 26, PInt 46]),
                           (''GPSLatitudeRef'', PStr ''N'')],
            tags = [], other_tags = []\<rparr>))"
    by (simp add: get_gps_coordinates_def gps_try_block_def resolve_latitude_def
        resolve_longitude_def resolve_altitude_def convert_to_degrees_def unpack3_def
        dict_is_empty_def caught_def)
qed

text \<open>
  The checks of the upload handler: an accepted upload without metadata, or with an
  empty dict of metadata, is answered with status 400 and
  \<^verbatim>\<open>No EXIF data found in image\<close>, one whose metadata holds tags and no GPS block with
  status 400 and \<^verbatim>\<open>No GPS coordinates found in image EXIF data\<close>; no KML text is built in
  either case.
\<close>

theorem upload_gates:
  assumes "filename \<noteq> []" and "allowed_file filename"
    and "exif = get_exif_data env (''uploads/'' @ uuid_photo env @ ''.'' @
                  map py_lower_char (after_last_dot filename))"
  shows "(exif = None \<longrightarrow>
            upload_file env (Some filename) =
              Inr (Failure ''No EXIF data found in image'' 400)) \<and>
         (\<forall>md. exif = Some md \<and> GPSInfo md = None \<longrightarrow>
            upload_file env (Some filename) =
              Inr (Failure (if tags md = [] \<and> other_tags md = []
                            then ''No EXIF data found in image''
                            else ''No GPS coordinates found in image EXIF data'') 400))"
  using assms
  by (auto simp: upload_file_def Let_def dict_is_empty_def get_gps_coordinates_def)

theorem upload_gates_witness:
  "upload_file (example_env None) (Some ''photo.jpg'') =
     Inr (Failure ''No EXIF data found in image'' 400) \<and>
   upload_file
     (example_env (Some \<lparr>GPSInfo = None, tags = [],
                          other_tags = [(''Orientation'', PInt 1)]\<rparr>))
     (Some ''photo.jpg'') =
     Inr (Failure ''No GPS coordinates found in image EXIF data'' 400)"
proof
  show "upload_file (example_env None) (Some ''photo.jpg'') =
     Inr (Failure ''No EXIF data found in image'' 400)"
    using upload_gates [where env = "example_env None" and filename = "''photo.jpg''",
        OF _ photo_jpg_allowed(1) refl]
    by (simp add: example_env_def)
  show "upload_file
     (example_env (Some \<lparr>GPSInfo = None, tags = [],
                          other_tags = [(''Orientation'', PInt 1)]\<rparr>))
     (Some ''photo.jpg'') =
     Inr (Failure ''No GPS coordinates found in image EXIF data'' 400)"
    using upload_gates
      [where env = "example_env
                      (Some \<lparr>GPSInfo = None, tags = [],
                             other_tags = [(''Orientation'', PInt 1)]\<rparr>)"
         and filename = "''photo.jpg''",
       OF _ photo_jpg_allowed(1) refl]
    by (simp add: example_env_def)
qed

section \<open>The sign of the coordinates\<close>

text \<open>
  The operations of \<^verbatim>\<open>convert_to_degrees\<close> keep a float that is not negative so: the sum
  of the degrees, minutes and seconds of three ints that are not negative has a clear
  sign bit.
\<close>

lemma strip_zero_bits_nonneg: "0 \<le> m \<Longrightarrow> 0 \<le> fst (strip_zero_bits m e)"
proof (induction m e rule: strip_zero_bits.induct)
  case (1 m e)
  show ?case
  proof (cases "m = 0 \<or> odd m")
    case True
    with "1.prems" show ?thesis by (auto simp: strip_zero_bits.simps [of m e])
  next
    case False
    with "1.prems" have "0 \<le> fst (strip_zero_bits (m div 2) (e + 1))"
      by (intro "1.IH") auto
    with False show ?thesis by (simp add: strip_zero_bits.simps [of m e])
  qed
qed

lemma round_half_even_nonneg: "0 \<le> a \<Longrightarrow> 0 < b \<Longrightarrow> 0 \<le> round_half_even (a, b)"
  by (auto simp: round_half_even_def Let_def pos_imp_zdiv_nonneg_iff intro: add_nonneg_nonneg)

lemma scale2_nonneg: "0 \<le> n \<Longrightarrow> 0 < d \<Longrightarrow> 0 \<le> fst (scale2 n d k) \<and> 0 < snd (scale2 n d k)"
  by (simp add: scale2_def)

lemma round_double_nonneg:
  assumes "0 \<le> n" "0 < d"
  shows "nonneg_float (round_double False n d ex)"
proof -
  have "0 \<le> fst (strip_zero_bits (round_half_even (scale2 n d k)) e)" for k e
    using assms scale2_nonneg [of n d k]
    by (intro strip_zero_bits_nonneg) (cases "scale2 n d k", simp add: round_half_even_nonneg)
  then show ?thesis
    by (auto simp: round_double_def Let_def split: prod.splits) (metis fst_conv)+
qed

lemma float_of_int_nonneg: "0 \<le> i \<Longrightarrow> nonneg_float (float_of_int i)"
  by (simp add: float_of_int_def round_double_nonneg)

lemma float_of_int_60: "float_of_int 60 = Finite False 15 2"
  by code_simp

lemma float_of_int_3600: "float_of_int 3600 = Finite False 225 4"
  by code_simp

lemma float_div_nonneg:
  assumes "nonneg_float x" "0 < k"
  shows "nonneg_float (float_div x (Finite False k j))"
  using assms by (cases x) (auto simp: float_div.simps round_double_nonneg)

lemma float_add_nonneg:
  assumes "nonneg_float x" "nonneg_float y"
  shows "nonneg_float (float_add x y)"
proof (cases x)
  case (Finite s1 m1 e1)
  show ?thesis
  proof (cases y)
    case y: (Finite s2 m2 e2)
    let ?v = "m1 * 2 ^ nat (e1 - min e1 e2) + m2 * 2 ^ nat (e2 - min e1 e2)"
    from assms Finite y have "0 \<le> ?v" by simp
    then have "nonneg_float (round_double False \<bar>?v\<bar> 1 (min e1 e2))"
      by (intro round_double_nonneg) auto
    moreover from \<open>0 \<le> ?v\<close> have "(?v < 0) = False" "\<bar>?v\<bar> = ?v"
      by simp_all
    ultimately show ?thesis
      using assms Finite y by (simp add: float_add.simps Let_def signed_def)
  next
    case (Infinity s2)
    with assms Finite show ?thesis by (simp add: float_add.simps)
  next
    case NaN
    with assms show ?thesis by simp
  qed
next
  case (Infinity s1)
  with assms show ?thesis by (cases y) (auto simp: float_add.simps)
next
  case NaN
  with assms show ?thesis by simp
qed

lemma nonneg_float_sign: "nonneg_float x \<Longrightarrow> \<not> sign_bit x \<and> sign_bit (float_neg x)"
  by (cases x) auto

lemma convert_to_degrees_nonneg:
  assumes "0 \<le> d" "0 \<le> m" "0 \<le> s"
    and "convert_to_degrees p (PTuple [PInt d, PInt m, PInt s]) = Inr x"
  shows "nonneg_float x"
  using assms
  by (auto simp: convert_to_degrees_def unpack3_def float_of_int_60 float_of_int_3600
      float_add_nonneg float_div_nonneg float_of_int_nonneg split: if_splits)

text \<open>
  The invariant of the coordinates in the data model: for degrees, minutes and seconds
  that are ints and not negative, the resolved latitude has its sign bit set exactly
  when the reference is \<^verbatim>\<open>"S"\<close>, the longitude exactly when the reference is \<^verbatim>\<open>"W"\<close>.
\<close>

theorem hemisphere_sign:
  assumes gps: "GPSInfo md = Some g"
    and lat: "map_of g ''GPSLatitude'' = Some (PTuple [PInt lat_d, PInt lat_m, PInt lat_s])"
      "0 \<le> lat_d" "0 \<le> lat_m" "0 \<le> lat_s"
      "map_of g ''GPSLatitudeRef'' = Some (PStr lat_ref)"
    and lon: "map_of g ''GPSLongitude'' = Some (PTuple [PInt lon_d, PInt lon_m, PInt lon_s])"
      "0 \<le> lon_d" "0 \<le> lon_m" "0 \<le> lon_s"
      "map_of g ''GPSLongitudeRef'' = Some (PStr lon_ref)"
    and res: "get_gps_coordinates p (Some md) = Inr (Some c)"
  shows "sign_bit (latitude c) = (lat_ref = ''S'') \<and>
         sign_bit (longitude c) = (lon_ref = ''W'')"
proof -
  from res gps lat(1,5) lon(1,5)
  obtain x y where xy:
    "convert_to_degrees p (PTuple [PInt lat_d, PInt lat_m, PInt lat_s]) = Inr x"
    "convert_to_degrees p (PTuple [PInt lon_d, PInt lon_m, PInt lon_s]) = Inr y"
    "latitude c = (if lat_ref = ''S'' then float_neg x else x)"
    "longitude c = (if lon_ref = ''W'' then float_neg y else y)"
    by (auto simp: get_gps_coordinates_gps gps_try_block_def resolve_latitude_def
        resolve_longitude_def split: sum.splits if_splits option.splits)
  from lat(2-4) xy(1) have "nonneg_float x" by (rule convert_to_degrees_nonneg)
  moreover from lon(2-4) xy(2) have "nonneg_float y" by (rule convert_to_degrees_nonneg)
  ultimately show ?thesis
    using xy(3,4) by (auto dest: nonneg_float_sign)
qed

theorem hemisphere_sign_witness:
  "sign_bit (latitude pittsburgh_coordinates) = (''N'' = ''S'') \<and>
   sign_bit (longitude pittsburgh_coordinates) = (''W'' = ''W'')"
  by (rule hemisphere_sign
        [where md = "\<lparr>GPSInfo = Some pittsburgh, tags = [], other_tags = []\<rparr>" and g = pittsburgh
           and p = no_str_floats
           and lat_d = 40 and lat_m = 26 and lat_s = 46
           and lon_d = 79 and lon_m = 58 and lon_s = 56])
     (simp_all add: pittsburgh_def pittsburgh_resolves [unfolded pittsburgh_def])

end
